theory Spec2Isabelle
  imports Complex_Main
begin

section \<open>The request and response schemas of app/schemas.py\<close>

text \<open>
  The module declares eight classes derived from the validation library's base class and
  contains no function of its own: a class statement lists annotated fields, some with a
  default. What such a declaration means is the validator and the serializer that the
  base class derives from the field list. The development therefore has three layers:
  \<^item> the data: JSON input, validated Python values, annotations, defaults, errors;
  \<^item> the meaning of a declaration: how the field list of a class is collected from its
    base and its own annotations, how an input object is validated field by field, and how
    a validated object is serialized;
  \<^item> the eight declarations themselves, field by field as the module writes them.

  The library is imported, not part of the module, and the module does not pin its
  release. The two things a release decides are parameters of the validator (record
  \<open>pydantic\<close>): which leaf conversions it performs, and whether a field annotated
  \<open>Optional[T]\<close> without any default gets the default \<open>None\<close>. The conversion
  table of the library's default mode is given afterwards as one instance.
\<close>

subsection \<open>Data\<close>

text \<open>
  A parsed JSON body. Python's JSON reader yields \<open>int\<close> for a number written without
  fraction or exponent and \<open>float\<close> otherwise, so the two are kept apart. A finite float
  is a rational number; no arithmetic is performed on it. An object is a Python dict,
  given as the list of its items in insertion order; the keys of a dict are distinct.
\<close>

datatype json =
    JNull
  | JBool bool
  | JInt int
  | JFloat rat
  | JStr string
  | JArr "json list"
  | JObj "(string \<times> json) list"

text \<open>
  Values held by a validated object. A UUID is represented by its 32 lower-case
  hexadecimal digits (the attribute \<open>hex\<close> of Python's UUID), an instance of a model
  class by the class name and its fields in declaration order.
\<close>

datatype pyval =
    VNone
  | VInt int
  | VFloat rat
  | VStr string
  | VUUID string
  | VDict "(string \<times> json) list"
  | VList "pyval list"
  | VModel string "(string \<times> pyval) list"

text \<open>
  The right-hand side of a field declaration: nothing (\<open>x: T\<close>), the required marker
  (\<open>x: T = Field(...)\<close>), a default value (\<open>x: T = None\<close>), or a factory
  (\<open>x: T = Field(default_factory=list)\<close>). The keywords \<open>example\<close> and
  \<open>description\<close> of \<open>Field\<close> only feed the generated API documentation and are left out.
\<close>

datatype dflt = NoDefault | Ellipsis | Default pyval | DefaultFactoryList

text \<open>
  Annotations: \<open>str\<close>, \<open>int\<close>, \<open>float\<close>, \<open>UUID\<close>, \<open>dict\<close>,
  \<open>List[T]\<close>, \<open>Optional[T]\<close>, and a model class, which carries its collected fields.
\<close>

datatype ftype =
    TStr
  | TInt
  | TFloat
  | TUUID
  | TDict
  | TList ftype
  | TOptional ftype
  | TModel string "(string \<times> ftype \<times> dflt) list"

type_synonym field = "string \<times> ftype \<times> dflt"

datatype model = Model (cname: string) (model_fields: "field list")

text \<open>
  A ValidationError is a non-empty list of errors, each with the path of the offending
  item (field names and list indices) and the kind of violation.
\<close>

datatype loc_item = Key string | Idx nat

datatype err_kind = Missing | Invalid

type_synonym error = "loc_item list \<times> err_kind"

type_synonym 'a result = "error list + 'a"

text \<open>
  What a release of the library decides: whether a field annotated \<open>Optional[T]\<close> and
  declared without any default has the default \<open>None\<close> (release 1) or is required
  (release 2), and which JSON values it converts to a leaf type (\<open>str\<close>, \<open>int\<close>,
  \<open>float\<close>, \<open>UUID\<close>, \<open>dict\<close>).
\<close>

record pydantic =
  implicit_none :: bool
  convert :: "ftype \<Rightarrow> json \<Rightarrow> pyval option"

subsection \<open>Class declarations\<close>

text \<open>
  A class statement starts from the fields of its base and adds its own annotations in
  order; an annotation that repeats an inherited name replaces that field in place.
\<close>

fun add_field :: "field list \<Rightarrow> field \<Rightarrow> field list" where
  "add_field [] f = [f]"
| "add_field (g # gs) f = (if fst g = fst f then f # gs else g # add_field gs f)"

definition BaseModel :: model where
  "BaseModel = Model ''BaseModel'' []"

definition pyclass :: "string \<Rightarrow> model \<Rightarrow> field list \<Rightarrow> model" where
  "pyclass name base own = Model name (foldl add_field (model_fields base) own)"

definition model_type :: "model \<Rightarrow> ftype" where
  "model_type M = TModel (cname M) (model_fields M)"

subsection \<open>Validation\<close>

fun is_optional :: "ftype \<Rightarrow> bool" where
  "is_optional (TOptional t) = True"
| "is_optional t = False"

text \<open>The value of a field whose key is absent from the input, if it has one.\<close>

definition default_of :: "pydantic \<Rightarrow> ftype \<Rightarrow> dflt \<Rightarrow> pyval option" where
  "default_of L t d =
     (case d of
        Default v \<Rightarrow> Some v
      | DefaultFactoryList \<Rightarrow> Some (VList [])
      | Ellipsis \<Rightarrow> None
      | NoDefault \<Rightarrow> if implicit_none L \<and> is_optional t then Some VNone else None)"

definition required :: "pydantic \<Rightarrow> field \<Rightarrow> bool" where
  "required L f = (default_of L (fst (snd f)) (snd (snd f)) = None)"

text \<open>Errors of a part are reported under the part's key or index.\<close>

definition under :: "loc_item \<Rightarrow> 'a result \<Rightarrow> 'a result" where
  "under i r = (case r of Inl es \<Rightarrow> Inl (map (\<lambda>(l, k). (i # l, k)) es) | Inr v \<Rightarrow> Inr v)"

definition errors_of :: "'a result \<Rightarrow> error list" where
  "errors_of r = (case r of Inl es \<Rightarrow> es | Inr v \<Rightarrow> [])"

text \<open>
  All parts are validated; the errors of all failing parts are reported together, and
  only when there is none are the values kept.
\<close>

definition collect :: "'a result list \<Rightarrow> 'a list result" where
  "collect rs =
     (if list_ex isl rs then Inl (concat (map errors_of rs)) else Inr (map projr rs))"

fun validate :: "pydantic \<Rightarrow> ftype \<Rightarrow> json \<Rightarrow> pyval result" where
  "validate L (TList t) v =
     (case v of
        JArr vs \<Rightarrow> map_sum id VList
          (collect (map (\<lambda>(i, x). under (Idx i) (validate L t x)) (enumerate 0 vs)))
      | _ \<Rightarrow> Inl [([], Invalid)])"
| "validate L (TOptional t) v =
     (if v = JNull then Inr VNone else validate L t v)"
| "validate L (TModel n fs) v =
     (case v of
        JObj kvs \<Rightarrow> map_sum id (\<lambda>vs. VModel n (zip (map fst fs) vs))
          (collect (map (\<lambda>(k, t, d). under (Key k)
             (case map_of kvs k of
                Some x \<Rightarrow> validate L t x
              | None \<Rightarrow> (case default_of L t d of
                           Some dv \<Rightarrow> Inr dv
                         | None \<Rightarrow> Inl [([], Missing)]))) fs))
      | _ \<Rightarrow> Inl [([], Invalid)])"
| "validate L t v =
     (case convert L t v of Some w \<Rightarrow> Inr w | None \<Rightarrow> Inl [([], Invalid)])"

text \<open>Validate-and-construct for a model class.\<close>

definition construct :: "pydantic \<Rightarrow> model \<Rightarrow> json \<Rightarrow> pyval result" where
  "construct L M x = validate L (model_type M) x"

subsection \<open>Serialization\<close>

text \<open>The text of a UUID: its digits in groups of 8, 4, 4, 4 and 12.\<close>

definition uuid_str :: "string \<Rightarrow> string" where
  "uuid_str h = take 8 h @ ''-'' @ take 4 (drop 8 h) @ ''-'' @ take 4 (drop 12 h)
     @ ''-'' @ take 4 (drop 16 h) @ ''-'' @ drop 20 h"

fun dump :: "pyval \<Rightarrow> json" where
  "dump VNone = JNull"
| "dump (VInt n) = JInt n"
| "dump (VFloat r) = JFloat r"
| "dump (VStr s) = JStr s"
| "dump (VUUID h) = JStr (uuid_str h)"
| "dump (VDict kvs) = JObj kvs"
| "dump (VList vs) = JArr (map dump vs)"
| "dump (VModel n kvs) = JObj (map (\<lambda>(k, v). (k, dump v)) kvs)"

definition getattr :: "pyval \<Rightarrow> string \<Rightarrow> pyval option" where
  "getattr r k = (case r of VModel n kvs \<Rightarrow> map_of kvs k | _ \<Rightarrow> None)"

definition keys :: "json \<Rightarrow> string list" where
  "keys x = (case x of JObj kvs \<Rightarrow> map fst kvs | _ \<Rightarrow> [])"

subsection \<open>The eight classes\<close>

definition SlotQuery :: model where
  "SlotQuery = pyclass ''SlotQuery'' BaseModel
     [(''query'', TStr, Ellipsis)]"

definition JobPreview :: model where
  "JobPreview = pyclass ''JobPreview'' BaseModel
     [(''job_id'', TInt, NoDefault),
      (''farm_name'', TStr, NoDefault),
      (''region'', TStr, NoDefault),
      (''tags'', TList TStr, NoDefault)]"

definition TourPreview :: model where
  "TourPreview = pyclass ''TourPreview'' BaseModel
     [(''content_id'', TInt, NoDefault),
      (''title'', TStr, NoDefault),
      (''region'', TStr, NoDefault),
      (''overview'', TStr, NoDefault),
      (''image_url'', TOptional TStr, Default VNone)]"

definition SlotsResponse :: model where
  "SlotsResponse = pyclass ''SlotsResponse'' BaseModel
     [(''slots'', TDict, NoDefault),
      (''jobs_preview'', TList (model_type JobPreview), NoDefault),
      (''tours_preview'', TList (model_type TourPreview), NoDefault)]"

definition RecommendationRequest :: model where
  "RecommendationRequest = pyclass ''RecommendationRequest'' BaseModel
     [(''query'', TStr, NoDefault),
      (''user_id'', TOptional TUUID, Default VNone),
      (''budget'', TInt, NoDefault)]"

definition RecommendRequest :: model where
  "RecommendRequest = pyclass ''RecommendRequest'' RecommendationRequest
     [(''selected_jobs'', TList TInt, DefaultFactoryList),
      (''selected_tours'', TList TInt, DefaultFactoryList)]"

definition ScheduleItem :: model where
  "ScheduleItem = pyclass ''ScheduleItem'' BaseModel
     [(''day'', TInt, NoDefault),
      (''date'', TStr, NoDefault),
      (''plan_items'', TList TStr, NoDefault),
      (''total_distance_km'', TOptional TFloat, NoDefault),
      (''total_cost_krw'', TOptional TInt, NoDefault)]"

definition Itinerary :: model where
  "Itinerary = pyclass ''Itinerary'' ScheduleItem []"


subsection \<open>The conversions of the library's default mode\<close>

text \<open>
  In its default (lax) mode the library converts some JSON values to the annotated type
  instead of rejecting them. The table below is that of release 2 for JSON input:
  \<^item> \<open>str\<close> takes a string only;
  \<^item> \<open>int\<close> takes an integer, a boolean (as 0 or 1), a float without fractional part,
    and a string that is a decimal integer;
  \<^item> \<open>float\<close> takes a float, an integer, a boolean, and a string that is a decimal number;
  \<^item> \<open>UUID\<close> takes a string in hyphenated form, as 32 bare digits, in braces or with
    the prefix \<open>urn:uuid:\<close>, in either letter case;
  \<^item> \<open>dict\<close> takes any object, unchanged.
  Numeric strings are read in their plain form only (surrounding blanks, a sign, digits,
  for a float one point between digits); digit grouping and exponents are outside the
  table. An integer given for a float is taken at its exact value.
\<close>

definition whitespace :: "char \<Rightarrow> bool" where
  "whitespace c = (c \<in> set [CHR '' '', CHR 0x09, CHR 0x0A, CHR 0x0B, CHR 0x0C, CHR 0x0D])"

definition strip :: "string \<Rightarrow> string" where
  "strip s = rev (dropWhile whitespace (rev (dropWhile whitespace s)))"

definition digit :: "char \<Rightarrow> nat option" where
  "digit c =
     (let n = (of_char c :: nat) in if 48 \<le> n \<and> n \<le> 57 then Some (n - 48) else None)"

fun digits :: "nat \<Rightarrow> string \<Rightarrow> nat option" where
  "digits acc [] = Some acc"
| "digits acc (c # cs) =
     (case digit c of Some d \<Rightarrow> digits (10 * acc + d) cs | None \<Rightarrow> None)"

definition decimal :: "string \<Rightarrow> nat option" where
  "decimal s = (if s = [] then None else digits 0 s)"

definition signed :: "(string \<Rightarrow> 'a option) \<Rightarrow> ('a \<Rightarrow> 'a) \<Rightarrow> string \<Rightarrow> 'a option" where
  "signed p neg s =
     (case s of
        [] \<Rightarrow> None
      | c # cs \<Rightarrow> if c = CHR ''-'' then map_option neg (p cs)
                  else if c = CHR ''+'' then p cs
                  else p s)"

definition int_of_str :: "string \<Rightarrow> int option" where
  "int_of_str s = signed (\<lambda>u. map_option int (decimal u)) uminus (strip s)"

definition fraction :: "string \<Rightarrow> rat option" where
  "fraction s =
     (let whole = takeWhile (\<lambda>c. c \<noteq> CHR ''.'') s;
          rest = dropWhile (\<lambda>c. c \<noteq> CHR ''.'') s
      in case decimal whole of
           None \<Rightarrow> None
         | Some a \<Rightarrow>
             (case rest of
                [] \<Rightarrow> Some (of_nat a)
              | dot # ds \<Rightarrow>
                  (case decimal ds of
                     None \<Rightarrow> None
                   | Some b \<Rightarrow> Some (of_nat a + of_nat b / of_nat (10 ^ length ds)))))"

definition float_of_str :: "string \<Rightarrow> rat option" where
  "float_of_str s = signed fraction uminus (strip s)"

definition hexdigit :: "char \<Rightarrow> bool" where
  "hexdigit c = (c \<in> set ''0123456789abcdefABCDEF'')"

definition lower :: "char \<Rightarrow> char" where
  "lower c = (if c \<in> set ''ABCDEF'' then char_of (of_char c + (32::nat)) else c)"

definition uuid_groups :: "string \<Rightarrow> string" where
  "uuid_groups s =
     take 8 s @ take 4 (drop 9 s) @ take 4 (drop 14 s) @ take 4 (drop 19 s) @ drop 24 s"

definition hyphenated :: "string \<Rightarrow> bool" where
  "hyphenated s =
     (length s = 36 \<and> list_all hexdigit (uuid_groups s) \<and> uuid_str (uuid_groups s) = s)"

definition undecorate :: "string \<Rightarrow> string" where
  "undecorate s =
     (if take 9 s = ''urn:uuid:'' then drop 9 s
      else if 2 \<le> length s \<and> hd s = CHR ''{'' \<and> last s = CHR ''}'' then butlast (tl s)
      else s)"

definition parse_uuid :: "string \<Rightarrow> string option" where
  "parse_uuid s =
     (let u = undecorate s
      in if hyphenated u then Some (map lower (uuid_groups u))
         else if length s = 32 \<and> list_all hexdigit s then Some (map lower s)
         else None)"

definition str_validator :: "json \<Rightarrow> pyval option" where
  "str_validator v = (case v of JStr s \<Rightarrow> Some (VStr s) | _ \<Rightarrow> None)"

definition int_validator :: "json \<Rightarrow> pyval option" where
  "int_validator v =
     (case v of
        JInt n \<Rightarrow> Some (VInt n)
      | JBool b \<Rightarrow> Some (VInt (if b then 1 else 0))
      | JFloat r \<Rightarrow> if r = of_int \<lfloor>r\<rfloor> then Some (VInt \<lfloor>r\<rfloor>) else None
      | JStr s \<Rightarrow> map_option VInt (int_of_str s)
      | _ \<Rightarrow> None)"

definition float_validator :: "json \<Rightarrow> pyval option" where
  "float_validator v =
     (case v of
        JFloat r \<Rightarrow> Some (VFloat r)
      | JInt n \<Rightarrow> Some (VFloat (of_int n))
      | JBool b \<Rightarrow> Some (VFloat (if b then 1 else 0))
      | JStr s \<Rightarrow> map_option VFloat (float_of_str s)
      | _ \<Rightarrow> None)"

definition uuid_validator :: "json \<Rightarrow> pyval option" where
  "uuid_validator v = (case v of JStr s \<Rightarrow> map_option VUUID (parse_uuid s) | _ \<Rightarrow> None)"

definition dict_validator :: "json \<Rightarrow> pyval option" where
  "dict_validator v = (case v of JObj kvs \<Rightarrow> Some (VDict kvs) | _ \<Rightarrow> None)"

definition lax :: "ftype \<Rightarrow> json \<Rightarrow> pyval option" where
  "lax t v =
     (case t of
        TStr \<Rightarrow> str_validator v
      | TInt \<Rightarrow> int_validator v
      | TFloat \<Rightarrow> float_validator v
      | TUUID \<Rightarrow> uuid_validator v
      | TDict \<Rightarrow> dict_validator v
      | _ \<Rightarrow> None)"

definition pydantic_v2 :: pydantic where
  "pydantic_v2 = \<lparr>implicit_none = False, convert = lax\<rparr>"

subsection \<open>Notions used to state the properties\<close>

text \<open>The result for one declared field of an input object, as \<open>validate\<close> computes it.\<close>

definition field_result :: "pydantic \<Rightarrow> (string \<times> json) list \<Rightarrow> field \<Rightarrow> pyval result" where
  "field_result L kvs f =
     under (Key (fst f))
       (case map_of kvs (fst f) of
          Some x \<Rightarrow> validate L (fst (snd f)) x
        | None \<Rightarrow> (case default_of L (fst (snd f)) (snd (snd f)) of
                     Some dv \<Rightarrow> Inr dv
                   | None \<Rightarrow> Inl [([], Missing)]))"

text \<open>An error list names a field when the path of one of its errors starts there.\<close>

definition blames :: "error list \<Rightarrow> string \<Rightarrow> bool" where
  "blames es k = list_ex (\<lambda>e. take 1 (fst e) = [Key k]) es"

text \<open>
  A JSON value that already has the annotated leaf type, and the Python value it stands
  for. For a UUID this is the text the serializer writes: hyphenated, lower case.
\<close>

definition canonical_uuid :: "string \<Rightarrow> bool" where
  "canonical_uuid s = (hyphenated s \<and> map lower s = s)"

definition exact_value :: "ftype \<Rightarrow> json \<Rightarrow> pyval option" where
  "exact_value t v =
     (case t of
        TStr \<Rightarrow> (case v of JStr s \<Rightarrow> Some (VStr s) | _ \<Rightarrow> None)
      | TInt \<Rightarrow> (case v of JInt n \<Rightarrow> Some (VInt n) | _ \<Rightarrow> None)
      | TFloat \<Rightarrow> (case v of JFloat r \<Rightarrow> Some (VFloat r) | _ \<Rightarrow> None)
      | TUUID \<Rightarrow> (case v of
                   JStr s \<Rightarrow> if canonical_uuid s then Some (VUUID (uuid_groups s)) else None
                 | _ \<Rightarrow> None)
      | TDict \<Rightarrow> (case v of JObj kvs \<Rightarrow> Some (VDict kvs) | _ \<Rightarrow> None)
      | _ \<Rightarrow> None)"

text \<open>
  Every release passes a value of the annotated type through unchanged; that is all the
  general properties below ask of the conversion table.
\<close>

definition exact :: "pydantic \<Rightarrow> bool" where
  "exact L = (\<forall>t v w. exact_value t v = Some w \<longrightarrow> convert L t v = Some w)"

text \<open>
  An input matches a declared shape: a leaf has the annotated type, a list has matching
  items, an optional value is null or matches, and an object for a model class has
  distinct keys, all of them declared, a matching value for each key it gives, and gives
  every field that has no default.
\<close>

fun matches :: "pydantic \<Rightarrow> ftype \<Rightarrow> json \<Rightarrow> bool" where
  "matches L (TList t) v =
     (case v of JArr vs \<Rightarrow> list_all (matches L t) vs | _ \<Rightarrow> False)"
| "matches L (TOptional t) v = (v = JNull \<or> matches L t v)"
| "matches L (TModel n fs) v =
     (case v of
        JObj kvs \<Rightarrow>
          distinct (map fst kvs) \<and> list_all (\<lambda>k. k \<in> set (map fst fs)) (map fst kvs) \<and>
          list_all (\<lambda>(k, t, d).
            case map_of kvs k of
              Some x \<Rightarrow> matches L t x
            | None \<Rightarrow> default_of L t d \<noteq> None) fs
      | _ \<Rightarrow> False)"
| "matches L t v = (exact_value t v \<noteq> None)"



section \<open>Properties\<close>

subsection \<open>How validation unfolds\<close>

text \<open>
  The cases of \<open>validate\<close>, one lemma each; afterwards the defining equations are used
  only where a concrete input is evaluated.
\<close>

lemma isl_under [simp]: "isl (under i r) = isl r"
  by (cases r) (simp_all add: under_def)

lemma under_Inr_iff [simp]: "under i r = Inr v \<longleftrightarrow> r = Inr v"
  by (cases r) (simp_all add: under_def)

lemma validate_object:
  "validate L (TModel n fs) (JObj kvs) =
     map_sum id (\<lambda>vs. VModel n (zip (map fst fs) vs)) (collect (map (field_result L kvs) fs))"
proof -
  have "(\<lambda>(k, t, d). under (Key k)
             (case map_of kvs k of
                Some x \<Rightarrow> validate L t x
              | None \<Rightarrow> (case default_of L t d of
                           Some dv \<Rightarrow> Inr dv
                         | None \<Rightarrow> Inl [([], Missing)]))) = field_result L kvs"
    by (auto simp: field_result_def fun_eq_iff split: option.splits)
  then show ?thesis by simp
qed

lemma validate_not_object:
  "\<forall>kvs. x \<noteq> JObj kvs \<Longrightarrow> validate L (TModel n fs) x = Inl [([], Invalid)]"
  by (cases x) simp_all

lemma validate_list:
  "validate L (TList t) (JArr vs) =
     map_sum id VList (collect (map (\<lambda>(i, x). under (Idx i) (validate L t x)) (enumerate 0 vs)))"
  by simp

lemma validate_not_list:
  "\<forall>vs. x \<noteq> JArr vs \<Longrightarrow> validate L (TList t) x = Inl [([], Invalid)]"
  by (cases x) simp_all

lemma validate_optional:
  "validate L (TOptional t) v = (if v = JNull then Inr VNone else validate L t v)"
  by simp

declare validate.simps [simp del]

lemma validate_model_Inr:
  "validate L (TModel n fs) x = Inr r \<longleftrightarrow>
     (\<exists>kvs. x = JObj kvs \<and> (\<forall>f\<in>set fs. \<not> isl (field_result L kvs f)) \<and>
        r = VModel n (map (\<lambda>f. (fst f, projr (field_result L kvs f))) fs))"
proof (cases x)
  case (JObj kvs)
  have z: "zip (map fst fs) (map g fs) = map (\<lambda>f. (fst f, g f)) fs" for g :: "field \<Rightarrow> pyval"
    by (induction fs) simp_all
  show ?thesis
  proof (cases "\<exists>f\<in>set fs. isl (field_result L kvs f)")
    case True
    then show ?thesis by (auto simp: JObj validate_object collect_def list_ex_iff)
  next
    case False
    then have "collect (map (field_result L kvs) fs) = Inr (map projr (map (field_result L kvs) fs))"
      by (auto simp: collect_def list_ex_iff)
    with False show ?thesis by (auto simp: JObj validate_object z)
  qed
qed (simp_all add: validate_not_object)

lemma construct_Inr:
  "construct L M x = Inr r \<longleftrightarrow>
     (\<exists>kvs. x = JObj kvs \<and> (\<forall>f\<in>set (model_fields M). \<not> isl (field_result L kvs f)) \<and>
        r = VModel (cname M) (map (\<lambda>f. (fst f, projr (field_result L kvs f))) (model_fields M)))"
  by (simp add: construct_def model_type_def validate_model_Inr)

lemma construct_object:
  "construct L M (JObj kvs) =
     map_sum id (\<lambda>vs. VModel (cname M) (zip (map fst (model_fields M)) vs))
       (collect (map (field_result L kvs) (model_fields M)))"
  by (simp add: construct_def model_type_def validate_object)

lemma construct_Inl:
  assumes "f \<in> set (model_fields M)" "isl (field_result L kvs f)"
  shows "construct L M (JObj kvs)
       = Inl (concat (map errors_of (map (field_result L kvs) (model_fields M))))"
  using assms by (auto simp: construct_object collect_def list_ex_iff)

lemma construct_errors:
  "construct L M (JObj kvs) = Inl es \<Longrightarrow>
   es = concat (map errors_of (map (field_result L kvs) (model_fields M)))"
  by (auto simp: construct_object collect_def split: if_splits)

lemma field_result_absent:
  "map_of kvs (fst f) = None \<Longrightarrow> default_of L (fst (snd f)) (snd (snd f)) = Some dv \<Longrightarrow>
   field_result L kvs f = Inr dv"
  by (simp add: field_result_def under_def)

lemma field_result_missing:
  "map_of kvs (fst f) = None \<Longrightarrow> default_of L (fst (snd f)) (snd (snd f)) = None \<Longrightarrow>
   field_result L kvs f = Inl [([Key (fst f)], Missing)]"
  by (simp add: field_result_def under_def)

lemma field_result_present:
  "map_of kvs (fst f) = Some v \<Longrightarrow>
   field_result L kvs f = under (Key (fst f)) (validate L (fst (snd f)) v)"
  by (simp add: field_result_def)

lemma field_result_other_key:
  "fst f \<noteq> k \<Longrightarrow> field_result L ((k, v) # kvs) f = field_result L kvs f"
  by (simp add: field_result_def)

lemma absent_key: "k \<notin> set (keys (JObj kvs)) \<Longrightarrow> map_of kvs k = None"
  by (simp add: keys_def map_of_eq_None_iff)

text \<open>
  A failed validation always reports at least one error, and the errors of a field start
  with its name.
\<close>

lemma collect_not_empty:
  assumes "\<forall>r\<in>set rs. r \<noteq> Inl []"
  shows "collect rs \<noteq> Inl []"
proof
  assume "collect rs = Inl []"
  then obtain r where r: "r \<in> set rs" "isl r" and c: "concat (map errors_of rs) = []"
    by (auto simp: collect_def list_ex_iff split: if_splits)
  from c r(1) have "errors_of r = []" by auto
  with r(2) have "r = Inl []" by (cases r) (simp_all add: errors_of_def)
  with assms r(1) show False by blast
qed

lemma under_not_empty: "r \<noteq> Inl [] \<Longrightarrow> under i r \<noteq> Inl []"
  by (cases r) (simp_all add: under_def)

lemma map_sum_not_empty: "r \<noteq> Inl [] \<Longrightarrow> map_sum id g r \<noteq> Inl []"
  by (cases r) simp_all

lemma validate_not_empty: "validate L t v \<noteq> Inl []"
proof (induction L t v rule: validate.induct)
  case (1 L t v)
  show ?case
  proof (cases v)
    case (JArr vs)
    have "collect (map (\<lambda>(i, x). under (Idx i) (validate L t x)) (enumerate 0 vs)) \<noteq> Inl []"
      using 1 JArr by (intro collect_not_empty) (auto intro!: under_not_empty)
    then show ?thesis unfolding JArr validate_list by (rule map_sum_not_empty)
  qed (simp_all add: validate_not_list)
next
  case (2 L t v)
  then show ?case by (simp add: validate_optional)
next
  case (3 L n fs v)
  show ?case
  proof (cases v)
    case (JObj kvs)
    have "field_result L kvs f \<noteq> Inl []" if "f \<in> set fs" for f
    proof (cases "map_of kvs (fst f)")
      case None
      then show ?thesis
        by (cases "default_of L (fst (snd f)) (snd (snd f))")
           (simp_all add: field_result_def under_def)
    next
      case (Some x)
      obtain k t d where f: "f = (k, t, d)" by (cases f)
      have "validate L t x \<noteq> Inl []"
        by (rule "3.IH" [OF JObj that [unfolded f] refl refl Some [unfolded f fst_conv]])
      then show ?thesis
        using Some by (simp add: field_result_present f under_not_empty)
    qed
    then have "collect (map (field_result L kvs) fs) \<noteq> Inl []"
      by (intro collect_not_empty) auto
    then show ?thesis unfolding JObj validate_object by (rule map_sum_not_empty)
  qed (simp_all add: validate_not_object)
qed (simp_all add: validate.simps split: option.splits)

lemma blames_concat: "blames (concat ess) k \<longleftrightarrow> (\<exists>es\<in>set ess. blames es k)"
  by (auto simp: blames_def list_ex_iff)

lemma blames_under:
  "blames (errors_of (under (Key j) r)) k \<longleftrightarrow> j = k \<and> isl r \<and> r \<noteq> Inl []"
proof (cases r)
  case (Inl es)
  have "(\<exists>e\<in>set es. True) \<longleftrightarrow> es \<noteq> []" by (cases es) auto
  then show ?thesis
    by (auto simp: Inl blames_def list_ex_iff under_def errors_of_def case_prod_beta)
next
  case (Inr v)
  then show ?thesis by (simp add: blames_def under_def errors_of_def)
qed

lemma blames_field_result:
  "blames (errors_of (field_result L kvs f)) k \<Longrightarrow> k = fst f"
  by (auto simp: field_result_def blames_under)

lemma field_result_invalid:
  assumes "map_of kvs (fst f) = Some v" "isl (validate L (fst (snd f)) v)"
  shows "isl (field_result L kvs f)" "blames (errors_of (field_result L kvs f)) (fst f)"
  using assms validate_not_empty [of L "fst (snd f)" v]
  by (simp_all add: field_result_present blames_under)

subsection \<open>The declared field lists\<close>

lemmas class_defs = pyclass_def BaseModel_def model_type_def
  SlotQuery_def JobPreview_def TourPreview_def SlotsResponse_def
  RecommendationRequest_def RecommendRequest_def ScheduleItem_def Itinerary_def

lemma fields_SlotQuery:
  "model_fields SlotQuery = [(''query'', TStr, Ellipsis)]"
  by (simp add: class_defs)

lemma fields_JobPreview:
  "model_fields JobPreview =
     [(''job_id'', TInt, NoDefault), (''farm_name'', TStr, NoDefault),
      (''region'', TStr, NoDefault), (''tags'', TList TStr, NoDefault)]"
  by (simp add: class_defs)

lemma fields_TourPreview:
  "model_fields TourPreview =
     [(''content_id'', TInt, NoDefault), (''title'', TStr, NoDefault),
      (''region'', TStr, NoDefault), (''overview'', TStr, NoDefault),
      (''image_url'', TOptional TStr, Default VNone)]"
  by (simp add: class_defs)

lemma fields_RecommendationRequest:
  "model_fields RecommendationRequest =
     [(''query'', TStr, NoDefault), (''user_id'', TOptional TUUID, Default VNone),
      (''budget'', TInt, NoDefault)]"
  by (simp add: class_defs)

lemma fields_RecommendRequest:
  "model_fields RecommendRequest =
     [(''query'', TStr, NoDefault), (''user_id'', TOptional TUUID, Default VNone),
      (''budget'', TInt, NoDefault), (''selected_jobs'', TList TInt, DefaultFactoryList),
      (''selected_tours'', TList TInt, DefaultFactoryList)]"
  by (simp add: class_defs)

lemma fields_ScheduleItem:
  "model_fields ScheduleItem =
     [(''day'', TInt, NoDefault), (''date'', TStr, NoDefault),
      (''plan_items'', TList TStr, NoDefault),
      (''total_distance_km'', TOptional TFloat, NoDefault),
      (''total_cost_krw'', TOptional TInt, NoDefault)]"
  by (simp add: class_defs)

lemma fields_Itinerary: "model_fields Itinerary = model_fields ScheduleItem"
  by (simp add: class_defs)

lemma cname_simps:
  "cname SlotQuery = ''SlotQuery''" "cname TourPreview = ''TourPreview''"
  "cname RecommendationRequest = ''RecommendationRequest''"
  "cname RecommendRequest = ''RecommendRequest''"
  "cname ScheduleItem = ''ScheduleItem''" "cname Itinerary = ''Itinerary''"
  by (simp_all add: class_defs)


subsection \<open>The default conversions pass exact values through\<close>

lemmas lax_defs = pydantic_v2_def lax_def str_validator_def int_validator_def
  float_validator_def uuid_validator_def dict_validator_def int_of_str_def float_of_str_def
  signed_def strip_def whitespace_def decimal_def digit_def fraction_def parse_uuid_def
  undecorate_def hyphenated_def uuid_groups_def uuid_str_def hexdigit_def lower_def

lemmas int_defs = pydantic_v2_def lax_def str_validator_def int_validator_def int_of_str_def
  signed_def strip_def whitespace_def decimal_def digit_def

lemmas run_defs = construct_object field_result_def collect_def under_def errors_of_def
  default_of_def validate.simps

lemma exact_convert: "exact L \<Longrightarrow> exact_value t v = Some w \<Longrightarrow> convert L t v = Some w"
  by (simp add: exact_def)

lemma uuid_groups_map: "map f (uuid_groups s) = uuid_groups (map f s)"
  by (simp add: uuid_groups_def take_map drop_map)

lemma hyphenated_head:
  assumes "hyphenated s"
  obtains c cs where "s = c # cs" "hexdigit c"
proof -
  from assms have len: "length s = 36" and hex: "list_all hexdigit (uuid_groups s)"
    by (simp_all add: hyphenated_def)
  from len obtain c cs where s: "s = c # cs" by (cases s) auto
  with hex have "hexdigit c" by (simp add: uuid_groups_def)
  with s show thesis by (rule that)
qed

lemma undecorate_hyphenated:
  assumes "hyphenated s"
  shows "undecorate s = s"
proof -
  from assms obtain c cs where s: "s = c # cs" and c: "hexdigit c"
    by (rule hyphenated_head)
  from c have "c \<noteq> CHR ''u''" "c \<noteq> CHR ''{''"
    by (auto simp: hexdigit_def)
  then show ?thesis by (auto simp: undecorate_def s)
qed

lemma parse_canonical_uuid:
  assumes "canonical_uuid s"
  shows "parse_uuid s = Some (uuid_groups s)"
proof -
  from assms have h: "hyphenated s" and l: "map lower s = s"
    by (simp_all add: canonical_uuid_def)
  have "map lower (uuid_groups s) = uuid_groups s"
    by (simp add: uuid_groups_map l)
  with h show ?thesis
    by (simp add: parse_uuid_def undecorate_hyphenated)
qed

lemma lax_exact: "exact pydantic_v2"
  unfolding exact_def
proof (intro allI impI)
  fix t v w
  assume "exact_value t v = Some w"
  then show "convert pydantic_v2 t v = Some w"
    by (cases t; cases v)
       (auto simp: exact_value_def pydantic_v2_def lax_def str_validator_def int_validator_def
          float_validator_def uuid_validator_def dict_validator_def parse_canonical_uuid
          split: if_splits)
qed




subsection \<open>Round trip\<close>









text \<open>
  A nested example: the tour card omits \<open>image_url\<close>, and the serialized card carries
  it as null.
\<close>

lemma slots_response_example:
  "map_sum id dump (construct pydantic_v2 SlotsResponse
     (JObj [(''slots'', JObj [(''region'', JStr ''Gochang''), (''nights'', JInt 2)]),
            (''jobs_preview'', JArr [JObj [(''job_id'', JInt 1), (''farm_name'', JStr ''Sunrise''),
                (''region'', JStr ''Gochang''), (''tags'', JArr [JStr ''clam''])]]),
            (''tours_preview'', JArr [JObj [(''content_id'', JInt 7), (''title'', JStr ''Beach''),
                (''region'', JStr ''Gochang''), (''overview'', JStr ''flat'')]])]))
   = Inr (JObj [(''slots'', JObj [(''region'', JStr ''Gochang''), (''nights'', JInt 2)]),
            (''jobs_preview'', JArr [JObj [(''job_id'', JInt 1), (''farm_name'', JStr ''Sunrise''),
                (''region'', JStr ''Gochang''), (''tags'', JArr [JStr ''clam''])]]),
            (''tours_preview'', JArr [JObj [(''content_id'', JInt 7), (''title'', JStr ''Beach''),
                (''region'', JStr ''Gochang''), (''overview'', JStr ''flat''),
                (''image_url'', JNull)]])])"
  by (simp add: run_defs lax_defs class_defs validate_object)

subsection \<open>Missing fields\<close>

text \<open>
  C2. For every model class, every field of it that has no default, and every input
  object that lacks the field's key, construction fails, and the error list contains the
  entry "missing" at exactly that field; no value is invented. (An input that is not an
  object has no fields to omit and is rejected as a whole.)
\<close>

theorem missing_required_field:
  assumes "f \<in> set (model_fields M)" "required L f" "fst f \<notin> set (keys (JObj kvs))"
  shows "\<exists>es. construct L M (JObj kvs) = Inl es \<and> ([Key (fst f)], Missing) \<in> set es"
proof -
  have fr: "field_result L kvs f = Inl [([Key (fst f)], Missing)]"
    using assms(2,3) by (intro field_result_missing) (simp_all add: absent_key required_def)
  then have "construct L M (JObj kvs)
       = Inl (concat (map errors_of (map (field_result L kvs) (model_fields M))))"
    using assms(1) by (intro construct_Inl [of f]) simp_all
  moreover have "([Key (fst f)], Missing)
       \<in> set (concat (map errors_of (map (field_result L kvs) (model_fields M))))"
    using assms(1) fr by (force simp: errors_of_def)
  ultimately show ?thesis by blast
qed

theorem missing_required_field_witness:
  "(\<exists>es. construct pydantic_v2 SlotQuery (JObj []) = Inl es \<and> ([Key ''query''], Missing) \<in> set es)
   \<and> (\<exists>es. construct pydantic_v2 JobPreview
          (JObj [(''farm_name'', JStr ''Sunrise Farm''), (''region'', JStr ''Gochang''),
                 (''tags'', JArr [])]) = Inl es
        \<and> ([Key ''job_id''], Missing) \<in> set es)"
  using missing_required_field [of "(''query'', TStr, Ellipsis)" SlotQuery pydantic_v2 "[]"]
    missing_required_field [of "(''job_id'', TInt, NoDefault)" JobPreview pydantic_v2
      "[(''farm_name'', JStr ''Sunrise Farm''), (''region'', JStr ''Gochang''), (''tags'', JArr [])]"]
  by (simp add: fields_SlotQuery fields_JobPreview required_def default_of_def keys_def)

subsection \<open>Values that do not have the annotated type\<close>

lemma not_a_number: "int_of_str ''not-a-number'' = None"
  by (simp add: int_defs)

lemma not_a_uuid: "parse_uuid ''not-a-uuid'' = None"
  by (simp add: parse_uuid_def undecorate_def hyphenated_def)

text \<open>
  C3, as amended. Whenever the value given for a declared field cannot be validated
  against the field's annotation, construction fails and the error list names that field.
  Under the default conversions this is the case for the string \<open>"not-a-number"\<close>
  given for \<open>budget\<close> (scenario D, where the only error is on \<open>budget\<close>) and for a
  string that is not a UUID given for \<open>user_id\<close>. A value of another type that the
  library converts, such as a numeric string for \<open>budget\<close>, is accepted instead.
\<close>

theorem unconvertible_value_rejected:
  "((k, t, d) \<in> set (model_fields M) \<and> map_of kvs k = Some v \<and> isl (validate L t v)
      \<longrightarrow> (\<exists>es. construct L M (JObj kvs) = Inl es \<and> blames es k))
   \<and> construct pydantic_v2 RecommendationRequest
        (JObj [(''budget'', JStr ''not-a-number''), (''query'', JStr ''x'')])
      = Inl [([Key ''budget''], Invalid)]
   \<and> construct pydantic_v2 RecommendationRequest
        (JObj [(''query'', JStr ''x''), (''user_id'', JStr ''not-a-uuid''), (''budget'', JInt 1)])
      = Inl [([Key ''user_id''], Invalid)]"
proof (intro conjI impI)
  assume a: "(k, t, d) \<in> set (model_fields M) \<and> map_of kvs k = Some v \<and> isl (validate L t v)"
  let ?f = "(k, t, d)"
  from a have fr: "isl (field_result L kvs ?f)" "blames (errors_of (field_result L kvs ?f)) k"
    using field_result_invalid [of kvs ?f v L] by simp_all
  from a fr(1) have "construct L M (JObj kvs)
       = Inl (concat (map errors_of (map (field_result L kvs) (model_fields M))))"
    by (intro construct_Inl [of ?f]) simp_all
  moreover have "blames (concat (map errors_of (map (field_result L kvs) (model_fields M)))) k"
    unfolding blames_concat using a fr(2) by force
  ultimately show "\<exists>es. construct L M (JObj kvs) = Inl es \<and> blames es k" by blast
next
  show "construct pydantic_v2 RecommendationRequest
          (JObj [(''budget'', JStr ''not-a-number''), (''query'', JStr ''x'')])
        = Inl [([Key ''budget''], Invalid)]"
    using not_a_number
    by (simp add: run_defs pydantic_v2_def lax_def str_validator_def int_validator_def
          fields_RecommendationRequest cname_simps)
next
  show "construct pydantic_v2 RecommendationRequest
          (JObj [(''query'', JStr ''x''), (''user_id'', JStr ''not-a-uuid''), (''budget'', JInt 1)])
        = Inl [([Key ''user_id''], Invalid)]"
    using not_a_uuid
    by (simp add: run_defs pydantic_v2_def lax_def str_validator_def int_validator_def
          uuid_validator_def fields_RecommendationRequest cname_simps)
qed

lemma job_id_word:
  "isl (validate pydantic_v2 TInt (JStr ''seven''))"
  by (simp add: validate.simps int_defs)

theorem unconvertible_value_rejected_witness:
  "(''job_id'', TInt, NoDefault) \<in> set (model_fields JobPreview)
   \<and> isl (validate pydantic_v2 TInt (JStr ''seven''))
   \<and> (\<exists>es. construct pydantic_v2 JobPreview
          (JObj [(''job_id'', JStr ''seven''), (''farm_name'', JStr ''Sunrise Farm''),
                 (''region'', JStr ''Gochang''), (''tags'', JArr [])]) = Inl es
        \<and> blames es ''job_id'')"
  using unconvertible_value_rejected [of "''job_id''" TInt NoDefault JobPreview
      "[(''job_id'', JStr ''seven''), (''farm_name'', JStr ''Sunrise Farm''),
        (''region'', JStr ''Gochang''), (''tags'', JArr [])]" "JStr ''seven''" pydantic_v2]
    job_id_word
  by (simp add: fields_JobPreview)

text \<open>
  C3 as stated does not hold: a string is not a value of the annotated type \<open>int\<close>, yet
  the input \<open>{"budget": "250", "query": "x"}\<close> is accepted.
\<close>

theorem numeric_string_budget_accepted:
  "\<not> matches pydantic_v2 TInt (JStr ''250'')
   \<and> construct pydantic_v2 RecommendationRequest
        (JObj [(''budget'', JStr ''250''), (''query'', JStr ''x'')])
      = Inr (VModel ''RecommendationRequest''
          [(''query'', VStr ''x''), (''user_id'', VNone), (''budget'', VInt 250)])"
  by (simp add: run_defs lax_defs fields_RecommendationRequest cname_simps exact_value_def)

text \<open>
  C10. Some inputs whose budget is not a JSON integer are accepted by conversion: under the
  default conversions the string \<open>"100000"\<close> is stored as the integer 100000 and the
  boolean \<open>true\<close> as 1, although neither value has the annotated type.
\<close>

theorem budget_coerced:
  "construct pydantic_v2 RecommendationRequest
     (JObj [(''query'', JStr ''x''), (''budget'', JStr ''100000'')])
   = Inr (VModel ''RecommendationRequest''
       [(''query'', VStr ''x''), (''user_id'', VNone), (''budget'', VInt 100000)])
   \<and> construct pydantic_v2 RecommendationRequest
     (JObj [(''query'', JStr ''x''), (''budget'', JBool True)])
   = Inr (VModel ''RecommendationRequest''
       [(''query'', VStr ''x''), (''user_id'', VNone), (''budget'', VInt 1)])
   \<and> exact_value TInt (JStr ''100000'') = None \<and> exact_value TInt (JBool True) = None"
  by (simp add: run_defs lax_defs fields_RecommendationRequest cname_simps exact_value_def)

subsection \<open>The query of a SlotQuery\<close>

text \<open>
  C4 as stated does not hold: the input \<open>{"query": ""}\<close> is accepted.
\<close>

theorem empty_query_accepted:
  "construct pydantic_v2 SlotQuery (JObj [(''query'', JStr [])])
   = Inr (VModel ''SlotQuery'' [(''query'', VStr [])])"
  by (simp add: run_defs lax_defs fields_SlotQuery cname_simps)

text \<open>
  C4, as amended. The field \<open>query\<close> of SlotQuery is required, and any string given for
  it, the empty string included, is accepted and stored unchanged; the declaration carries
  no length constraint.
\<close>

theorem query_any_string:
  assumes "exact L"
  shows "construct L SlotQuery (JObj [(''query'', JStr s)])
       = Inr (VModel ''SlotQuery'' [(''query'', VStr s)])
     \<and> construct L SlotQuery (JObj []) = Inl [([Key ''query''], Missing)]"
proof -
  have "convert L TStr (JStr s) = Some (VStr s)"
    using assms by (rule exact_convert) (simp add: exact_value_def)
  then show ?thesis
    by (simp add: run_defs fields_SlotQuery cname_simps)
qed

theorem query_any_string_witness:
  "exact pydantic_v2 \<and>
   construct pydantic_v2 SlotQuery (JObj [(''query'', JStr ''clam digging and a beach tour'')])
     = Inr (VModel ''SlotQuery'' [(''query'', VStr ''clam digging and a beach tour'')])
   \<and> construct pydantic_v2 SlotQuery (JObj []) = Inl [([Key ''query''], Missing)]"
  using query_any_string [OF lax_exact, of "''clam digging and a beach tour''"] lax_exact
  by simp

subsection \<open>Defaults and nullable fields\<close>

lemma recommend_example:
  "construct pydantic_v2 RecommendRequest
     (JObj [(''budget'', JInt 100000), (''query'', JStr ''trip'')])
   = Inr (VModel ''RecommendRequest''
       [(''query'', VStr ''trip''), (''user_id'', VNone), (''budget'', VInt 100000),
        (''selected_jobs'', VList []), (''selected_tours'', VList [])])"
  by (simp add: run_defs lax_defs fields_RecommendRequest cname_simps)

text \<open>
  C5. Whenever a RecommendRequest is constructed from an input that omits the key
  \<open>selected_jobs\<close> (respectively \<open>selected_tours\<close>), the constructed object has that
  field, and its value is the empty list, not \<open>None\<close>.
\<close>

theorem selected_default_empty:
  assumes "construct L RecommendRequest x = Inr r"
  shows "(''selected_jobs'' \<notin> set (keys x) \<longrightarrow> getattr r ''selected_jobs'' = Some (VList []))
       \<and> (''selected_tours'' \<notin> set (keys x) \<longrightarrow> getattr r ''selected_tours'' = Some (VList []))"
proof -
  from assms obtain kvs where x: "x = JObj kvs"
    and r: "r = VModel (cname RecommendRequest)
          (map (\<lambda>f. (fst f, projr (field_result L kvs f))) (model_fields RecommendRequest))"
    unfolding construct_Inr by blast
  have jobs: "getattr r ''selected_jobs'' = Some (VList [])" if "''selected_jobs'' \<notin> set (keys x)"
  proof -
    have "field_result L kvs (''selected_jobs'', TList TInt, DefaultFactoryList) = Inr (VList [])"
      using that x by (intro field_result_absent) (simp_all add: absent_key default_of_def)
    then show ?thesis by (simp add: r getattr_def fields_RecommendRequest)
  qed
  have tours: "getattr r ''selected_tours'' = Some (VList [])" if "''selected_tours'' \<notin> set (keys x)"
  proof -
    have "field_result L kvs (''selected_tours'', TList TInt, DefaultFactoryList) = Inr (VList [])"
      using that x by (intro field_result_absent) (simp_all add: absent_key default_of_def)
    then show ?thesis by (simp add: r getattr_def fields_RecommendRequest)
  qed
  from jobs tours show ?thesis by blast
qed

theorem selected_default_empty_witness:
  "construct pydantic_v2 RecommendRequest
     (JObj [(''budget'', JInt 100000), (''query'', JStr ''trip'')])
   = Inr (VModel ''RecommendRequest''
       [(''query'', VStr ''trip''), (''user_id'', VNone), (''budget'', VInt 100000),
        (''selected_jobs'', VList []), (''selected_tours'', VList [])])
   \<and> ''selected_jobs'' \<notin> set (keys (JObj [(''budget'', JInt 100000), (''query'', JStr ''trip'')]))
   \<and> ''selected_tours'' \<notin> set (keys (JObj [(''budget'', JInt 100000), (''query'', JStr ''trip'')]))
   \<and> getattr (VModel ''RecommendRequest''
       [(''query'', VStr ''trip''), (''user_id'', VNone), (''budget'', VInt 100000),
        (''selected_jobs'', VList []), (''selected_tours'', VList [])]) ''selected_jobs'' = Some (VList [])
   \<and> getattr (VModel ''RecommendRequest''
       [(''query'', VStr ''trip''), (''user_id'', VNone), (''budget'', VInt 100000),
        (''selected_jobs'', VList []), (''selected_tours'', VList [])]) ''selected_tours'' = Some (VList [])"
  using selected_default_empty [OF recommend_example] recommend_example
  by (simp add: keys_def)

lemma image_url_omitted:
  assumes "''image_url'' \<notin> set (keys (JObj kvs))"
  shows "field_result L kvs (''image_url'', TOptional TStr, Default VNone) = Inr VNone"
  using assms by (intro field_result_absent) (simp_all add: absent_key default_of_def)

lemma image_url_empty:
  assumes "exact L"
  shows "field_result L ((''image_url'', JStr []) # kvs) (''image_url'', TOptional TStr, Default VNone)
       = Inr (VStr [])"
proof -
  have "convert L TStr (JStr []) = Some (VStr [])"
    using assms by (rule exact_convert) (simp add: exact_value_def)
  then show ?thesis
    by (simp add: field_result_def validate.simps under_def)
qed

text \<open>
  C6. For an input object without the key \<open>image_url\<close>: no validation error of
  TourPreview names \<open>image_url\<close>, and a constructed TourPreview has
  \<open>image_url = None\<close>. This differs from a present empty string: giving
  \<open>image_url = ""\<close> in addition changes neither success nor failure, the field then
  holds the empty string, and the two constructed objects are unequal.
\<close>

theorem image_url_absent_distinct:
  assumes "''image_url'' \<notin> set (keys (JObj kvs))"
  shows "(\<forall>es. construct L TourPreview (JObj kvs) = Inl es \<longrightarrow> \<not> blames es ''image_url'')
       \<and> (\<forall>r. construct L TourPreview (JObj kvs) = Inr r \<longrightarrow> getattr r ''image_url'' = Some VNone)
       \<and> (exact L \<longrightarrow>
            isl (construct L TourPreview (JObj ((''image_url'', JStr []) # kvs)))
              = isl (construct L TourPreview (JObj kvs))
          \<and> (\<forall>r r'. construct L TourPreview (JObj kvs) = Inr r
                \<and> construct L TourPreview (JObj ((''image_url'', JStr []) # kvs)) = Inr r'
              \<longrightarrow> getattr r' ''image_url'' = Some (VStr []) \<and> r' \<noteq> r))"
proof (intro conjI allI impI)
  fix es assume "construct L TourPreview (JObj kvs) = Inl es"
  then have es: "es = concat (map errors_of (map (field_result L kvs) (model_fields TourPreview)))"
    by (rule construct_errors)
  show "\<not> blames es ''image_url''"
  proof
    assume "blames es ''image_url''"
    then obtain f where f: "f \<in> set (model_fields TourPreview)"
      and b: "blames (errors_of (field_result L kvs f)) ''image_url''"
      unfolding es blames_concat by auto
    from b have "fst f = ''image_url''" by (auto dest: blames_field_result)
    with f have "f = (''image_url'', TOptional TStr, Default VNone)"
      by (auto simp: fields_TourPreview)
    with b image_url_omitted [OF assms, of L] show False
      by (simp add: errors_of_def blames_def)
  qed
next
  fix r assume "construct L TourPreview (JObj kvs) = Inr r"
  then have "r = VModel (cname TourPreview)
      (map (\<lambda>f. (fst f, projr (field_result L kvs f))) (model_fields TourPreview))"
    unfolding construct_Inr by blast
  then show "getattr r ''image_url'' = Some VNone"
    by (simp add: getattr_def fields_TourPreview image_url_omitted [OF assms])
next
  assume "exact L"
  show "isl (construct L TourPreview (JObj ((''image_url'', JStr []) # kvs)))
      = isl (construct L TourPreview (JObj kvs))"
    by (simp add: construct_object fields_TourPreview collect_def field_result_other_key
          image_url_omitted [OF assms] image_url_empty [OF \<open>exact L\<close>])
next
  fix r r'
  assume "exact L"
    and rr: "construct L TourPreview (JObj kvs) = Inr r
       \<and> construct L TourPreview (JObj ((''image_url'', JStr []) # kvs)) = Inr r'"
  from rr have r: "getattr r ''image_url'' = Some VNone"
    unfolding construct_Inr
    by (auto simp: getattr_def fields_TourPreview image_url_omitted [OF assms])
  from rr have r': "getattr r' ''image_url'' = Some (VStr [])"
    unfolding construct_Inr
    by (auto simp: getattr_def fields_TourPreview image_url_empty [OF \<open>exact L\<close>])
  from r' show "getattr r' ''image_url'' = Some (VStr [])" .
  from r r' show "r' \<noteq> r" by auto
qed

lemma tour_example:
  "construct pydantic_v2 TourPreview
     (JObj [(''content_id'', JInt 7), (''title'', JStr ''Dongho Beach''),
            (''region'', JStr ''Gochang''), (''overview'', JStr ''tidal flat'')])
   = Inr (VModel ''TourPreview''
       [(''content_id'', VInt 7), (''title'', VStr ''Dongho Beach''),
        (''region'', VStr ''Gochang''), (''overview'', VStr ''tidal flat''),
        (''image_url'', VNone)])"
  by (simp add: run_defs lax_defs fields_TourPreview cname_simps)

lemma tour_example_empty:
  "construct pydantic_v2 TourPreview
     (JObj [(''image_url'', JStr []), (''content_id'', JInt 7), (''title'', JStr ''Dongho Beach''),
            (''region'', JStr ''Gochang''), (''overview'', JStr ''tidal flat'')])
   = Inr (VModel ''TourPreview''
       [(''content_id'', VInt 7), (''title'', VStr ''Dongho Beach''),
        (''region'', VStr ''Gochang''), (''overview'', VStr ''tidal flat''),
        (''image_url'', VStr [])])"
  by (simp add: run_defs lax_defs fields_TourPreview cname_simps)

theorem image_url_absent_distinct_witness:
  "''image_url'' \<notin> set (keys (JObj [(''content_id'', JInt 7), (''title'', JStr ''Dongho Beach''),
            (''region'', JStr ''Gochang''), (''overview'', JStr ''tidal flat'')]))
   \<and> exact pydantic_v2
   \<and> construct pydantic_v2 TourPreview
     (JObj [(''content_id'', JInt 7), (''title'', JStr ''Dongho Beach''),
            (''region'', JStr ''Gochang''), (''overview'', JStr ''tidal flat'')])
   = Inr (VModel ''TourPreview''
       [(''content_id'', VInt 7), (''title'', VStr ''Dongho Beach''),
        (''region'', VStr ''Gochang''), (''overview'', VStr ''tidal flat''),
        (''image_url'', VNone)])
   \<and> construct pydantic_v2 TourPreview
     (JObj [(''image_url'', JStr []), (''content_id'', JInt 7), (''title'', JStr ''Dongho Beach''),
            (''region'', JStr ''Gochang''), (''overview'', JStr ''tidal flat'')])
   = Inr (VModel ''TourPreview''
       [(''content_id'', VInt 7), (''title'', VStr ''Dongho Beach''),
        (''region'', VStr ''Gochang''), (''overview'', VStr ''tidal flat''),
        (''image_url'', VStr [])])
   \<and> getattr (VModel ''TourPreview''
       [(''content_id'', VInt 7), (''title'', VStr ''Dongho Beach''),
        (''region'', VStr ''Gochang''), (''overview'', VStr ''tidal flat''),
        (''image_url'', VNone)]) ''image_url'' = Some VNone
   \<and> VModel ''TourPreview''
       [(''content_id'', VInt 7), (''title'', VStr ''Dongho Beach''),
        (''region'', VStr ''Gochang''), (''overview'', VStr ''tidal flat''),
        (''image_url'', VStr [])]
     \<noteq> VModel ''TourPreview''
       [(''content_id'', VInt 7), (''title'', VStr ''Dongho Beach''),
        (''region'', VStr ''Gochang''), (''overview'', VStr ''tidal flat''),
        (''image_url'', VNone)]"
  using image_url_absent_distinct [of "[(''content_id'', JInt 7), (''title'', JStr ''Dongho Beach''),
            (''region'', JStr ''Gochang''), (''overview'', JStr ''tidal flat'')]" pydantic_v2]
    tour_example tour_example_empty lax_exact
  by (simp add: keys_def)

text \<open>
  C7 as stated does not hold under release 2: with the two keys omitted, both fields are
  reported missing.
\<close>

theorem schedule_item_keys_omitted_required:
  "construct pydantic_v2 ScheduleItem
     (JObj [(''day'', JInt 1), (''date'', JStr ''2024-09-01''),
            (''plan_items'', JArr [JStr ''clam digging''])])
   = Inl [([Key ''total_distance_km''], Missing), ([Key ''total_cost_krw''], Missing)]"
  by (simp add: run_defs lax_defs fields_ScheduleItem cname_simps)

text \<open>
  C7, as amended. With \<open>total_distance_km\<close> and \<open>total_cost_krw\<close> given as null,
  the ScheduleItem of scenario C is constructed with both fields absent, under every
  release. With the two keys omitted, the outcome is the release's: where an Optional
  annotation without default implies the default \<open>None\<close> the same object is constructed,
  and where it does not, construction fails with both fields reported missing.
\<close>

theorem schedule_item_nullable:
  assumes "exact L"
  shows "construct L ScheduleItem
       (JObj [(''day'', JInt 1), (''date'', JStr ''2024-09-01''),
              (''plan_items'', JArr [JStr ''clam digging'']),
              (''total_distance_km'', JNull), (''total_cost_krw'', JNull)])
     = Inr (VModel ''ScheduleItem''
         [(''day'', VInt 1), (''date'', VStr ''2024-09-01''),
          (''plan_items'', VList [VStr ''clam digging'']),
          (''total_distance_km'', VNone), (''total_cost_krw'', VNone)])
   \<and> construct L ScheduleItem
       (JObj [(''day'', JInt 1), (''date'', JStr ''2024-09-01''),
              (''plan_items'', JArr [JStr ''clam digging''])])
     = (if implicit_none L
        then Inr (VModel ''ScheduleItem''
         [(''day'', VInt 1), (''date'', VStr ''2024-09-01''),
          (''plan_items'', VList [VStr ''clam digging'']),
          (''total_distance_km'', VNone), (''total_cost_krw'', VNone)])
        else Inl [([Key ''total_distance_km''], Missing), ([Key ''total_cost_krw''], Missing)])"
proof -
  have i: "convert L TInt (JInt 1) = Some (VInt 1)"
    using assms by (rule exact_convert) (simp add: exact_value_def)
  have s: "convert L TStr (JStr u) = Some (VStr u)" for u
    using assms by (rule exact_convert) (simp add: exact_value_def)
  show ?thesis
    by (simp add: run_defs fields_ScheduleItem cname_simps i s)
qed

theorem schedule_item_nullable_witness:
  "exact pydantic_v2
   \<and> construct pydantic_v2 ScheduleItem
       (JObj [(''day'', JInt 1), (''date'', JStr ''2024-09-01''),
              (''plan_items'', JArr [JStr ''clam digging'']),
              (''total_distance_km'', JNull), (''total_cost_krw'', JNull)])
     = Inr (VModel ''ScheduleItem''
         [(''day'', VInt 1), (''date'', VStr ''2024-09-01''),
          (''plan_items'', VList [VStr ''clam digging'']),
          (''total_distance_km'', VNone), (''total_cost_krw'', VNone)])
   \<and> exact (pydantic_v2\<lparr>implicit_none := True\<rparr>)
   \<and> construct (pydantic_v2\<lparr>implicit_none := True\<rparr>) ScheduleItem
       (JObj [(''day'', JInt 1), (''date'', JStr ''2024-09-01''),
              (''plan_items'', JArr [JStr ''clam digging''])])
     = Inr (VModel ''ScheduleItem''
         [(''day'', VInt 1), (''date'', VStr ''2024-09-01''),
          (''plan_items'', VList [VStr ''clam digging'']),
          (''total_distance_km'', VNone), (''total_cost_krw'', VNone)])"
proof -
  have e: "exact (pydantic_v2\<lparr>implicit_none := True\<rparr>)"
    using lax_exact by (simp add: exact_def)
  from schedule_item_nullable [OF lax_exact] schedule_item_nullable [OF e] lax_exact e
  show ?thesis by simp
qed

subsection \<open>Extension of a base class\<close>

lemma validate_model_name:
  "map_sum id dump (validate L (TModel n fs) x) = map_sum id dump (validate L (TModel n' fs) x)"
proof (cases x)
  case (JObj kvs)
  show ?thesis unfolding JObj validate_object
    by (cases "collect (map (field_result L kvs) fs)") simp_all
qed (simp_all add: validate_not_object)

text \<open>
  C8. Itinerary adds no field to ScheduleItem. For every input, under every release,
  constructing an Itinerary and constructing a ScheduleItem either both fail, with the
  same errors, or both succeed, and then the two objects serialize to the same JSON
  (same keys, same values, same order).
\<close>

theorem itinerary_same_as_schedule_item:
  "model_fields Itinerary = model_fields ScheduleItem \<and>
   map_sum id dump (construct L Itinerary x) = map_sum id dump (construct L ScheduleItem x)"
  by (simp add: construct_def model_type_def fields_Itinerary validate_model_name [of L "cname Itinerary" _ x "cname ScheduleItem"])

lemma keys_dump_model:
  "keys (dump (VModel n (map (\<lambda>f. (fst f, g f)) fs))) = map fst fs"
  by (simp add: keys_def comp_def case_prod_beta)

lemma construct_keys:
  assumes "construct L M x = Inr r"
  shows "keys (dump r) = map fst (model_fields M)"
proof -
  from assms obtain kvs where
    "r = VModel (cname M) (map (\<lambda>f. (fst f, projr (field_result L kvs f))) (model_fields M))"
    unfolding construct_Inr by blast
  then show ?thesis by (simp only: keys_dump_model)
qed

text \<open>
  C9. Extension keeps the base's fields verbatim and in order. The fields of
  RecommendRequest are those of RecommendationRequest, each with its name, annotation and
  default unchanged, followed by \<open>selected_jobs\<close> and \<open>selected_tours\<close>; the fields
  of Itinerary are those of ScheduleItem. Hence every constructed RecommendRequest
  serializes with exactly the keys query, user_id, budget, selected_jobs, selected_tours in
  that order, and every Itinerary (like every ScheduleItem) with day, date, plan_items,
  total_distance_km, total_cost_krw.
\<close>

theorem inherited_field_order:
  "model_fields RecommendRequest =
     model_fields RecommendationRequest @
       [(''selected_jobs'', TList TInt, DefaultFactoryList),
        (''selected_tours'', TList TInt, DefaultFactoryList)]
   \<and> model_fields Itinerary = model_fields ScheduleItem
   \<and> (\<forall>L x r. construct L RecommendRequest x = Inr r \<longrightarrow>
         keys (dump r) = [''query'', ''user_id'', ''budget'', ''selected_jobs'', ''selected_tours''])
   \<and> (\<forall>L x r. construct L Itinerary x = Inr r \<longrightarrow>
         keys (dump r) = [''day'', ''date'', ''plan_items'', ''total_distance_km'', ''total_cost_krw''])
   \<and> (\<forall>L x r. construct L ScheduleItem x = Inr r \<longrightarrow>
         keys (dump r) = [''day'', ''date'', ''plan_items'', ''total_distance_km'', ''total_cost_krw''])"
proof (intro conjI allI impI)
  show "model_fields RecommendRequest =
     model_fields RecommendationRequest @
       [(''selected_jobs'', TList TInt, DefaultFactoryList),
        (''selected_tours'', TList TInt, DefaultFactoryList)]"
    by (simp add: fields_RecommendRequest fields_RecommendationRequest)
  show "model_fields Itinerary = model_fields ScheduleItem"
    by (rule fields_Itinerary)
next
  fix L x r assume "construct L RecommendRequest x = Inr r"
  from construct_keys [OF this]
  show "keys (dump r) = [''query'', ''user_id'', ''budget'', ''selected_jobs'', ''selected_tours'']"
    by (simp add: fields_RecommendRequest)
next
  fix L x r assume "construct L Itinerary x = Inr r"
  from construct_keys [OF this]
  show "keys (dump r) = [''day'', ''date'', ''plan_items'', ''total_distance_km'', ''total_cost_krw'']"
    by (simp add: fields_Itinerary fields_ScheduleItem)
next
  fix L x r assume "construct L ScheduleItem x = Inr r"
  from construct_keys [OF this]
  show "keys (dump r) = [''day'', ''date'', ''plan_items'', ''total_distance_km'', ''total_cost_krw'']"
    by (simp add: fields_ScheduleItem)
qed

theorem inherited_field_order_witness:
  "construct pydantic_v2 RecommendRequest
     (JObj [(''budget'', JInt 100000), (''query'', JStr ''trip'')])
   = Inr (VModel ''RecommendRequest''
       [(''query'', VStr ''trip''), (''user_id'', VNone), (''budget'', VInt 100000),
        (''selected_jobs'', VList []), (''selected_tours'', VList [])])
   \<and> keys (dump (VModel ''RecommendRequest''
       [(''query'', VStr ''trip''), (''user_id'', VNone), (''budget'', VInt 100000),
        (''selected_jobs'', VList []), (''selected_tours'', VList [])]))
     = [''query'', ''user_id'', ''budget'', ''selected_jobs'', ''selected_tours'']"
  using inherited_field_order recommend_example by blast

end
